theory Spec2Isabelle
  imports Complex_Main "HOL-Library.AList"
begin

section \<open>Canvas engine: the viewport transform\<close>

text \<open>
  The viewport object of \<^verbatim>\<open>CanvasEngine\<close> holds the pan offset (\<^verbatim>\<open>viewport.x\<close>,
  \<^verbatim>\<open>viewport.y\<close>, written \<open>panX\<close> and \<open>panY\<close> here), the zoom scalar and the two zoom
  bounds. The constructor sets \<^verbatim>\<open>minZoom: 0.1\<close> and \<^verbatim>\<open>maxZoom: 3\<close> and no method
  changes them. JavaScript numbers are modelled as rationals: the arithmetic of the
  source is read exactly, without floating-point rounding.
\<close>

record viewport =
  panX :: rat
  panY :: rat
  zoom :: rat
  minZoom :: rat
  maxZoom :: rat

text \<open>\<^verbatim>\<open>screenToWorld(screenX, screenY)\<close> and \<^verbatim>\<open>worldToScreen(worldX, worldY)\<close>; the
  returned object \<^verbatim>\<open>{x, y}\<close> is a pair.\<close>

definition screenToWorld :: "viewport \<Rightarrow> rat \<Rightarrow> rat \<Rightarrow> rat \<times> rat" where
  "screenToWorld vp screenX screenY =
     ((screenX - panX vp) / zoom vp, (screenY - panY vp) / zoom vp)"

definition worldToScreen :: "viewport \<Rightarrow> rat \<Rightarrow> rat \<Rightarrow> rat \<times> rat" where
  "worldToScreen vp worldX worldY =
     (worldX * zoom vp + panX vp, worldY * zoom vp + panY vp)"

text \<open>
  \<^verbatim>\<open>onWheel(e)\<close>. \<open>mouseX\<close> and \<open>mouseY\<close> are the cursor position relative to the
  canvas, \<open>deltaY\<close> is the wheel delta of the event. The repaint calls at the end of the
  accepted branch do not touch the viewport and are left out. \<open>zoomDelta\<close> is the
  local constant \<^verbatim>\<open>e.deltaY > 0 ? 0.9 : 1.1\<close>.
\<close>

definition zoomDelta :: "rat \<Rightarrow> rat" where
  "zoomDelta deltaY = (if deltaY > 0 then 9 / 10 else 11 / 10)"

definition onWheel :: "viewport \<Rightarrow> rat \<Rightarrow> rat \<Rightarrow> rat \<Rightarrow> viewport" where
  "onWheel vp mouseX mouseY deltaY =
     (let worldBefore = screenToWorld vp mouseX mouseY;
          newZoom = zoom vp * zoomDelta deltaY
      in if newZoom \<ge> minZoom vp \<and> newZoom \<le> maxZoom vp then
           (let vp1 = vp\<lparr>zoom := newZoom\<rparr>;
                worldAfter = screenToWorld vp1 mouseX mouseY
            in vp1\<lparr>panX := panX vp1 + (fst worldAfter - fst worldBefore) * zoom vp1,
                   panY := panY vp1 + (snd worldAfter - snd worldBefore) * zoom vp1\<rparr>)
         else vp)"

text \<open>The viewport the constructor builds, once \<^verbatim>\<open>resizeCanvas\<close> has centred it on a
  canvas of the given size.\<close>

definition initialViewport :: "rat \<Rightarrow> rat \<Rightarrow> viewport" where
  "initialViewport width height =
     \<lparr>panX = width / 2, panY = height / 2, zoom = 1, minZoom = 1 / 10, maxZoom = 3\<rparr>"

section \<open>JavaScript values\<close>

text \<open>
  The values a parsed JSON document can hold, with \<^verbatim>\<open>undefined\<close> for a property that
  is absent. Numbers are rationals (JSON has no NaN and no infinities). An object is the
  list of its own properties.
\<close>

datatype jsval =
    JUndefined
  | JNull
  | JBool bool
  | JNum rat
  | JStr string
  | JArr "jsval list"
  | JObj "(string \<times> jsval) list"

text \<open>Truthiness, as \<^verbatim>\<open>if\<close>, \<^verbatim>\<open>&&\<close> and \<^verbatim>\<open>||\<close> read a value: \<^verbatim>\<open>undefined\<close>,
  \<^verbatim>\<open>null\<close>, \<^verbatim>\<open>false\<close>, \<^verbatim>\<open>0\<close> and the empty string are falsy, every array and
  every object is truthy.\<close>

fun truthy :: "jsval \<Rightarrow> bool" where
  "truthy JUndefined = False"
| "truthy JNull = False"
| "truthy (JBool b) = b"
| "truthy (JNum n) = (n \<noteq> 0)"
| "truthy (JStr s) = (s \<noteq> [])"
| "truthy (JArr xs) = True"
| "truthy (JObj ps) = True"

text \<open>\<^verbatim>\<open>a || b\<close> on values.\<close>

definition js_or :: "jsval \<Rightarrow> jsval \<Rightarrow> jsval" where
  "js_or a b = (if truthy a then a else b)"

text \<open>
  Reading a property \<^verbatim>\<open>v.name\<close>. An object gives the property's value, or
  \<^verbatim>\<open>undefined\<close> when it has none of that name; a boolean, number, string or array has
  none of the names read in this program (\<^verbatim>\<open>version\<close>, \<^verbatim>\<open>rootNode\<close>, \<^verbatim>\<open>id\<close>,
  \<^verbatim>\<open>name\<close>) and gives \<^verbatim>\<open>undefined\<close>. Reading a property of \<^verbatim>\<open>null\<close> or
  \<^verbatim>\<open>undefined\<close> throws a TypeError, the result \<open>None\<close>.
\<close>

fun getProp :: "jsval \<Rightarrow> string \<Rightarrow> jsval option" where
  "getProp JUndefined k = None"
| "getProp JNull k = None"
| "getProp (JObj ps) k = (case map_of ps k of Some v \<Rightarrow> Some v | None \<Rightarrow> Some JUndefined)"
| "getProp v k = Some JUndefined"

section \<open>Connections and their JSON records\<close>

text \<open>
  A \<^verbatim>\<open>Connection\<close> instance and the plain record \<^verbatim>\<open>toJSON\<close> returns have the same
  seven fields. The three ids are strings (the id generator returns strings, and the
  code only copies and compares them); \<^verbatim>\<open>type\<close>, \<^verbatim>\<open>label\<close>, \<^verbatim>\<open>condition\<close> and
  \<^verbatim>\<open>metadata\<close> are the fields \<^verbatim>\<open>fromJSON\<close> tests for truthiness, so they are
  arbitrary values.
\<close>

record connection =
  conn_id :: string
  sourceId :: string
  targetId :: string
  conn_type :: jsval
  conn_label :: jsval
  condition :: jsval
  conn_metadata :: jsval

record connection_json =
  cj_id :: string
  cj_sourceId :: string
  cj_targetId :: string
  cj_type :: jsval
  cj_label :: jsval
  cj_condition :: jsval
  cj_metadata :: jsval

text \<open>
  \<^verbatim>\<open>new Connection(sourceId, targetId)\<close>. The constructor calls \<^verbatim>\<open>generateId()\<close> and
  \<^verbatim>\<open>Date.now()\<close>; the values they return are the parameters \<open>gid\<close> and \<open>now\<close>.
\<close>

definition newConnection :: "string \<Rightarrow> rat \<Rightarrow> string \<Rightarrow> string \<Rightarrow> connection" where
  "newConnection gid now src tgt =
     \<lparr>conn_id = gid, sourceId = src, targetId = tgt,
      conn_type = JStr ''normal'', conn_label = JStr [], condition = JNull,
      conn_metadata = JObj [(''createdAt'', JNum now)]\<rparr>"

definition Connection_toJSON :: "connection \<Rightarrow> connection_json" where
  "Connection_toJSON c =
     \<lparr>cj_id = conn_id c, cj_sourceId = sourceId c, cj_targetId = targetId c,
      cj_type = conn_type c, cj_label = conn_label c, cj_condition = condition c,
      cj_metadata = conn_metadata c\<rparr>"


section \<open>Node trees and their JSON records\<close>

text \<open>
  The nested record \<^verbatim>\<open>Node.toJSON\<close> returns and \<^verbatim>\<open>Node.fromJSON\<close> reads, and the tree
  of \<^verbatim>\<open>Node\<close> instances \<^verbatim>\<open>fromJSON\<close> builds. \<^verbatim>\<open>fromJSON\<close> allocates every instance
  itself and shares none of them, so the result is a tree value. Every field of a record
  is an arbitrary value; a field that is absent is \<^verbatim>\<open>undefined\<close>. The field
  \<^verbatim>\<open>children\<close> is either an array of node records or a value that is not an array
  (\<^verbatim>\<open>undefined\<close>, \<^verbatim>\<open>null\<close>, a boolean, a number, a string, an object).
\<close>

datatype nonarray =
  NUndefined | NNull | NBool bool | NNum rat | NStr string | NObj "(string \<times> jsval) list"

fun nonarrayValue :: "nonarray \<Rightarrow> jsval" where
  "nonarrayValue NUndefined = JUndefined"
| "nonarrayValue NNull = JNull"
| "nonarrayValue (NBool b) = JBool b"
| "nonarrayValue (NNum n) = JNum n"
| "nonarrayValue (NStr s) = JStr s"
| "nonarrayValue (NObj ps) = JObj ps"

datatype node_json =
  NodeJSON (j_id: jsval) (j_name: jsval) (j_type: jsval) (j_x: jsval) (j_y: jsval)
    (j_children: children_json) (j_connections: jsval) (j_metadata: jsval)
and children_json = ChildArray "node_json list" | ChildOther nonarray

datatype node_tree =
  NodeTree (t_id: jsval) (t_name: jsval) (t_type: jsval) (t_x: jsval) (t_y: jsval)
    (t_children: "node_tree list") (t_connections: jsval) (t_metadata: jsval)

text \<open>
  \<^verbatim>\<open>new Node(name, type = 'domain', x = 0, y = 0)\<close>, with the id and the time the
  constructor reads. A default parameter value replaces an argument that is
  \<^verbatim>\<open>undefined\<close>, and no other.
\<close>

definition js_default :: "jsval \<Rightarrow> jsval \<Rightarrow> jsval" where
  "js_default v d = (if v = JUndefined then d else v)"

definition newNodeTree :: "string \<Rightarrow> rat \<Rightarrow> jsval \<Rightarrow> jsval \<Rightarrow> jsval \<Rightarrow> jsval \<Rightarrow> node_tree" where
  "newNodeTree gid now name type x y =
     NodeTree (JStr gid) name (js_default type (JStr ''domain''))
       (js_default x (JNum 0)) (js_default y (JNum 0)) [] (JArr [])
       (JObj [(''description'', JStr []), (''code'', JStr []),
              (''createdAt'', JNum now), (''modifiedAt'', JNum now)])"

fun Node_toJSON :: "node_tree \<Rightarrow> node_json" where
  "Node_toJSON (NodeTree i n t x y cs conns md) =
     NodeJSON i n t x y (ChildArray (map Node_toJSON cs)) conns md"

text \<open>
  \<^verbatim>\<open>Node.fromJSON(data)\<close>. The guard \<^verbatim>\<open>if (data.children)\<close> is taken for an array (an
  array is truthy) and for a truthy value that is not an array; such a value has no
  \<^verbatim>\<open>map\<close> method and the call throws a TypeError, the result \<open>None\<close>. A falsy
  \<^verbatim>\<open>children\<close> leaves the empty array of the constructor. An exception thrown while a
  child is read ends the whole call (\<open>those\<close> gives \<open>None\<close>).
\<close>

fun Node_fromJSON :: "string \<Rightarrow> rat \<Rightarrow> node_json \<Rightarrow> node_tree option" where
  "Node_fromJSON gid now (NodeJSON i n t x y ch conns md) =
     (let node = newNodeTree gid now n t x y;
          withChildren = (\<lambda>kids.
            NodeTree i (t_name node) (t_type node) (t_x node) (t_y node) kids
              (js_or conns (JArr []))
              (js_or md (t_metadata node)))
      in case ch of
           ChildArray cs \<Rightarrow>
             map_option withChildren (those (map (Node_fromJSON gid now) cs))
         | ChildOther v \<Rightarrow>
             if truthy (nonarrayValue v) then None
             else Some (withChildren (t_children node)))"

section \<open>The program state: object store, node system, connection system\<close>

text \<open>
  The node system and the connection system hold references to \<^verbatim>\<open>Node\<close> objects that
  the tree, the navigation stack and the pending connection share, and they mutate them in
  place. The state is therefore an object store (\<open>heap\<close>, from references to objects),
  the fields of \<^verbatim>\<open>NodeSystem\<close>, the fields of \<^verbatim>\<open>ConnectionSystem\<close>, and the log of the
  calls to \<^verbatim>\<open>showNotification(message, kind)\<close>. A reference that may be \<^verbatim>\<open>null\<close> is an
  \<open>option\<close>. \<^verbatim>\<open>ConnectionSystem.connections\<close> is a \<^verbatim>\<open>Map\<close> from node ids to arrays of
  connections; a \<^verbatim>\<open>Map\<close> iterates in insertion order, so it is an association list.
\<close>

type_synonym ref = nat

record node_meta =
  meta_description :: string
  meta_code :: string
  meta_createdAt :: rat
  meta_modifiedAt :: rat

record node =
  node_id :: string
  node_name :: string
  node_type :: string
  node_x :: rat
  node_y :: rat
  children :: "ref list"
  node_connections :: "string list"
  node_metadata :: node_meta

record state =
  heap :: "ref \<Rightarrow> node"
  nextRef :: ref
  rootNode :: "ref option"
  currentNode :: "ref option"
  navigationStack :: "ref list"
  selectedNode :: "ref option"
  hoveredNode :: "ref option"
  connections :: "(string \<times> connection list) list"
  isConnecting :: bool
  connectionStart :: "ref option"
  tempConnectionEnd :: "(rat \<times> rat) option"
  notifications :: "(string \<times> string) list"

text \<open>
  Modelled from the spec: \<^verbatim>\<open>showNotification\<close> is called by the source files but defined
  in none of them. The specification describes it as the notification sink for user-facing
  messages, with no contract beyond displaying a message; here a call appends the message
  and its kind to the log. The other absent helpers are not modelled: the values that
  \<^verbatim>\<open>generateId()\<close> and \<^verbatim>\<open>Date.now()\<close> return are parameters (\<open>gid\<close>, \<open>now\<close>) of the
  functions that call them, one value for all the calls made within one such function.
\<close>

definition showNotification :: "string \<Rightarrow> string \<Rightarrow> state \<Rightarrow> state" where
  "showNotification message kind st =
     st\<lparr>notifications := notifications st @ [(message, kind)]\<rparr>"

text \<open>
  The state the two constructors leave: no root, an empty navigation stack, an empty
  connection map, no pending connection. No object is allocated yet; the store cells hold
  a blank object until \<^verbatim>\<open>new Node\<close> fills them.
\<close>

definition blankNode :: node where
  "blankNode =
     \<lparr>node_id = [], node_name = [], node_type = [], node_x = 0, node_y = 0,
      children = [], node_connections = [],
      node_metadata = \<lparr>meta_description = [], meta_code = [],
                       meta_createdAt = 0, meta_modifiedAt = 0\<rparr>\<rparr>"

definition initialState :: state where
  "initialState =
     \<lparr>heap = (\<lambda>r. blankNode), nextRef = 0,
      rootNode = None, currentNode = None, navigationStack = [],
      selectedNode = None, hoveredNode = None,
      connections = [], isConnecting = False, connectionStart = None,
      tempConnectionEnd = None, notifications = []\<rparr>"

subsection \<open>Node\<close>

text \<open>\<^verbatim>\<open>new Node(name, type, x, y)\<close> allocates the object at the next free reference.
  \<open>gid\<close> and \<open>now\<close> are the values of \<^verbatim>\<open>generateId()\<close> and \<^verbatim>\<open>Date.now()\<close>.\<close>

definition newNode :: "string \<Rightarrow> rat \<Rightarrow> string \<Rightarrow> string \<Rightarrow> rat \<Rightarrow> rat \<Rightarrow> state \<Rightarrow> ref \<times> state" where
  "newNode gid now name type x y st =
     (let r = nextRef st;
          obj = \<lparr>node_id = gid, node_name = name, node_type = type, node_x = x, node_y = y,
                 children = [], node_connections = [],
                 node_metadata = \<lparr>meta_description = [], meta_code = [],
                                  meta_createdAt = now, meta_modifiedAt = now\<rparr>\<rparr>
      in (r, st\<lparr>heap := (heap st)(r := obj), nextRef := Suc r\<rparr>))"

definition touch :: "rat \<Rightarrow> node \<Rightarrow> node" where
  "touch now n = n\<lparr>node_metadata := (node_metadata n)\<lparr>meta_modifiedAt := now\<rparr>\<rparr>"

definition addChild :: "rat \<Rightarrow> state \<Rightarrow> ref \<Rightarrow> ref \<Rightarrow> state" where
  "addChild now st parent node =
     st\<lparr>heap := (heap st)
           (parent := touch now ((heap st parent)\<lparr>children := children (heap st parent) @ [node]\<rparr>))\<rparr>"

text \<open>\<^verbatim>\<open>Array.prototype.findIndex\<close>: the first index whose element satisfies the test;
  the result \<^verbatim>\<open>-1\<close> is \<open>None\<close>. \<^verbatim>\<open>splice(index, 1)\<close> removes the element there.\<close>

fun findIndex :: "('a \<Rightarrow> bool) \<Rightarrow> 'a list \<Rightarrow> nat option" where
  "findIndex P [] = None"
| "findIndex P (x # xs) = (if P x then Some 0 else map_option Suc (findIndex P xs))"

definition splice1 :: "nat \<Rightarrow> 'a list \<Rightarrow> 'a list" where
  "splice1 index xs = take index xs @ drop (Suc index) xs"

definition removeChild :: "rat \<Rightarrow> state \<Rightarrow> ref \<Rightarrow> string \<Rightarrow> bool \<times> state" where
  "removeChild now st parent nodeId =
     (case findIndex (\<lambda>n. node_id (heap st n) = nodeId) (children (heap st parent)) of
        Some index \<Rightarrow>
          (True,
           st\<lparr>heap := (heap st)
                 (parent := touch now
                    ((heap st parent)\<lparr>children := splice1 index (children (heap st parent))\<rparr>))\<rparr>)
      | None \<Rightarrow> (False, st))"

definition hasChildren :: "node \<Rightarrow> bool" where
  "hasChildren n = (length (children n) > 0)"

subsection \<open>NodeSystem\<close>

definition initialize :: "string \<Rightarrow> rat \<Rightarrow> string \<Rightarrow> state \<Rightarrow> state" where
  "initialize gid now domainName st =
     (let (r, st1) = newNode gid now domainName ''domain'' 0 0 st
      in st1\<lparr>rootNode := Some r, currentNode := Some r, navigationStack := [r]\<rparr>)"

definition navigateToNode :: "state \<Rightarrow> ref option \<Rightarrow> bool \<times> state" where
  "navigateToNode st node =
     (case node of
        Some r \<Rightarrow>
          if hasChildren (heap st r) then
            (True, st\<lparr>currentNode := Some r,
                      navigationStack := navigationStack st @ [r],
                      selectedNode := None\<rparr>)
          else (False, st)
      | None \<Rightarrow> (False, st))"

definition navigateBack :: "state \<Rightarrow> bool \<times> state" where
  "navigateBack st =
     (if length (navigationStack st) > 1 then
        (let stack = butlast (navigationStack st)
         in (True, st\<lparr>navigationStack := stack,
                      currentNode := Some (last stack),
                      selectedNode := None\<rparr>))
      else (False, st))"

text \<open>The index comes from \<^verbatim>\<open>parseInt\<close> of a breadcrumb attribute and is an integer;
  \<^verbatim>\<open>slice(0, index + 1)\<close> keeps the first \<open>index + 1\<close> entries.\<close>

definition navigateToStackIndex :: "state \<Rightarrow> int \<Rightarrow> bool \<times> state" where
  "navigateToStackIndex st index =
     (if index \<ge> 0 \<and> index < int (length (navigationStack st)) then
        (let stack = take (nat (index + 1)) (navigationStack st)
         in (True, st\<lparr>navigationStack := stack,
                      currentNode := Some (last stack),
                      selectedNode := None\<rparr>))
      else (False, st))"

text \<open>\<^verbatim>\<open>addNode\<close> reads \<^verbatim>\<open>this.currentNode.addChild\<close>: with no current node the call
  throws, the result \<open>None\<close>.\<close>

definition addNode :: "string \<Rightarrow> rat \<Rightarrow> state \<Rightarrow> string \<Rightarrow> string \<Rightarrow> rat \<Rightarrow> rat \<Rightarrow> (ref \<times> state) option" where
  "addNode gid now st name type x y =
     (let (r, st1) = newNode gid now name type x y st
      in case currentNode st1 of
           Some cur \<Rightarrow> Some (r, addChild now st1 cur r)
         | None \<Rightarrow> None)"

definition deleteNode :: "rat \<Rightarrow> state \<Rightarrow> string \<Rightarrow> bool \<times> state" where
  "deleteNode now st nodeId =
     (case currentNode st of
        Some cur \<Rightarrow> removeChild now st cur nodeId
      | None \<Rightarrow> (False, st))"

subsection \<open>ConnectionSystem\<close>

definition startConnection :: "state \<Rightarrow> ref option \<Rightarrow> state" where
  "startConnection st sourceNode =
     st\<lparr>isConnecting := True, connectionStart := sourceNode, tempConnectionEnd := None\<rparr>"

definition updateTempConnection :: "state \<Rightarrow> rat \<Rightarrow> rat \<Rightarrow> state" where
  "updateTempConnection st worldX worldY =
     (if isConnecting st then st\<lparr>tempConnectionEnd := Some (worldX, worldY)\<rparr> else st)"

definition cancelConnection :: "state \<Rightarrow> state" where
  "cancelConnection st =
     st\<lparr>isConnecting := False, connectionStart := None, tempConnectionEnd := None\<rparr>"

definition connectionExists :: "state \<Rightarrow> string \<Rightarrow> string \<Rightarrow> bool" where
  "connectionExists st src tgt =
     (case map_of (connections st) src of
        Some sourceConnections \<Rightarrow> list_ex (\<lambda>conn. targetId conn = tgt) sourceConnections
      | None \<Rightarrow> False)"

definition getNodeConnections :: "state \<Rightarrow> string \<Rightarrow> connection list" where
  "getNodeConnections st nodeId =
     (case map_of (connections st) nodeId of Some conns \<Rightarrow> conns | None \<Rightarrow> [])"

text \<open>
  The two statements that store a connection: create the bucket of the key when the map
  has none, then push onto the bucket. \<^verbatim>\<open>Map.set\<close> on a new key appends the entry, and the
  push changes the array in its place in the map; \<open>AList.update\<close> does both.
\<close>

definition storeConnection :: "string \<Rightarrow> connection \<Rightarrow> (string \<times> connection list) list
    \<Rightarrow> (string \<times> connection list) list" where
  "storeConnection key conn m =
     (let m1 = (if map_of m key = None then AList.update key [] m else m)
      in case map_of m1 key of
           Some bucket \<Rightarrow> AList.update key (bucket @ [conn]) m1
         | None \<Rightarrow> m1)"

definition pushConnectionId :: "string \<Rightarrow> node \<Rightarrow> node" where
  "pushConnectionId cid n = n\<lparr>node_connections := node_connections n @ [cid]\<rparr>"

definition finishConnection :: "string \<Rightarrow> rat \<Rightarrow> state \<Rightarrow> ref option \<Rightarrow> connection option \<times> state" where
  "finishConnection gid now st targetNode =
     (case (isConnecting st, connectionStart st, targetNode) of
        (True, Some src, Some tgt) \<Rightarrow>
          if node_id (heap st src) = node_id (heap st tgt) then
            (None, cancelConnection st)
          else if connectionExists st (node_id (heap st src)) (node_id (heap st tgt)) then
            (None, cancelConnection (showNotification ''Connection already exists'' ''error'' st))
          else
            (let connection = newConnection gid now (node_id (heap st src)) (node_id (heap st tgt));
                 st1 = st\<lparr>connections :=
                          storeConnection (node_id (heap st src)) connection (connections st)\<rparr>;
                 st2 = st1\<lparr>heap := (heap st1)
                          (src := pushConnectionId (conn_id connection) (heap st1 src))\<rparr>;
                 st3 = st2\<lparr>heap := (heap st2)
                          (tgt := pushConnectionId (conn_id connection) (heap st2 tgt))\<rparr>
             in (Some connection, cancelConnection st3))
      | _ \<Rightarrow> (None, cancelConnection st))"

definition getConnectionsForLevel :: "state \<Rightarrow> ref option \<Rightarrow> connection list" where
  "getConnectionsForLevel st cur =
     (case cur of
        None \<Rightarrow> []
      | Some c \<Rightarrow>
          (let childIds = set (map (\<lambda>n. node_id (heap st n)) (children (heap st c)))
           in concat (map (\<lambda>n. filter (\<lambda>conn. targetId conn \<in> childIds)
                                  (getNodeConnections st (node_id (heap st n))))
                          (children (heap st c)))))"

text \<open>\<^verbatim>\<open>exportToJSON\<close> lists every stored connection, bucket after bucket.\<close>

definition allConnections :: "state \<Rightarrow> connection list" where
  "allConnections st = concat (map snd (connections st))"

definition exportToJSON :: "state \<Rightarrow> connection_json list" where
  "exportToJSON st = map Connection_toJSON (allConnections st)"




section \<open>Storage: import validation\<close>

text \<open>
  \<^verbatim>\<open>validateImportData(data)\<close> returns the value of the chain
  \<^verbatim>\<open>data && data.version && data.rootNode && data.rootNode.id && data.rootNode.name\<close>:
  the first falsy operand, or the last operand. \<^verbatim>\<open>&&\<close> evaluates its right operand only
  when the left one is truthy.
\<close>

definition js_and :: "jsval option \<Rightarrow> jsval option \<Rightarrow> jsval option" where
  "js_and a b = (case a of None \<Rightarrow> None | Some v \<Rightarrow> if truthy v then b else Some v)"

definition validateImportData :: "jsval \<Rightarrow> jsval option" where
  "validateImportData data =
     js_and (Some data)
       (js_and (getProp data ''version'')
          (js_and (getProp data ''rootNode'')
             (js_and (Option.bind (getProp data ''rootNode'') (\<lambda>r. getProp r ''id''))
                (Option.bind (getProp data ''rootNode'') (\<lambda>r. getProp r ''name'')))))"

text \<open>
  \<^verbatim>\<open>importFromFile(callback)\<close>. The helper \<^verbatim>\<open>importJSON\<close> passes the parsed file to the
  arrow function; \<open>data\<close> is that value. The callback is the caller's code that replaces
  the tree and the connection graph. A thrown TypeError is the result \<open>None\<close>.
\<close>

definition importFromFile :: "(jsval \<Rightarrow> state \<Rightarrow> state) \<Rightarrow> jsval \<Rightarrow> state \<Rightarrow> state option" where
  "importFromFile callback data st =
     (case validateImportData data of
        None \<Rightarrow> None
      | Some v \<Rightarrow>
          if truthy v then Some (callback data st)
          else Some (showNotification ''Invalid file format'' ''error'' st))"

section \<open>Properties stated by the specification\<close>

text \<open>
  The minimum acceptance contract of an imported document, in the specification's words:
  the object is truthy and has truthy \<^verbatim>\<open>version\<close>, \<^verbatim>\<open>rootNode\<close>, \<^verbatim>\<open>rootNode.id\<close> and
  \<^verbatim>\<open>rootNode.name\<close>.
\<close>

definition truthyProp :: "jsval \<Rightarrow> string \<Rightarrow> bool" where
  "truthyProp v k = (case getProp v k of Some w \<Rightarrow> truthy w | None \<Rightarrow> False)"

definition minimumContract :: "jsval \<Rightarrow> bool" where
  "minimumContract data =
     (truthy data \<and> truthyProp data ''version'' \<and> truthyProp data ''rootNode'' \<and>
      (case getProp data ''rootNode'' of
         Some rn \<Rightarrow> truthyProp rn ''id'' \<and> truthyProp rn ''name''
       | None \<Rightarrow> False))"



text \<open>
  Sequences of navigation transitions, and the navigation invariant: the stack is not
  empty and its top is the current node (\<open>navTopOk\<close>), and each entry of the stack is
  among the children of the entry below it (\<open>stackChain\<close>).
\<close>

datatype nav_op = NavigateToNode "ref option" | NavigateBack | NavigateToStackIndex int

fun navStep :: "state \<Rightarrow> nav_op \<Rightarrow> state" where
  "navStep st (NavigateToNode node) = snd (navigateToNode st node)"
| "navStep st NavigateBack = snd (navigateBack st)"
| "navStep st (NavigateToStackIndex index) = snd (navigateToStackIndex st index)"

fun navRun :: "state \<Rightarrow> nav_op list \<Rightarrow> state" where
  "navRun st [] = st"
| "navRun st (opn # ops) = navRun (navStep st opn) ops"

definition navTopOk :: "state \<Rightarrow> bool" where
  "navTopOk st =
     (navigationStack st \<noteq> [] \<and> currentNode st = Some (last (navigationStack st)))"

fun stackChain :: "(ref \<Rightarrow> node) \<Rightarrow> ref list \<Rightarrow> bool" where
  "stackChain h (p # c # rest) = (c \<in> set (children (h p)) \<and> stackChain h (c # rest))"
| "stackChain h [p] = True"
| "stackChain h [] = True"

text \<open>Every \<^verbatim>\<open>navigateToNode\<close> of the sequence that is accepted (its target has
  children) targets a direct child of the node that is current at that moment.\<close>

fun targetIsChild :: "state \<Rightarrow> nav_op \<Rightarrow> bool" where
  "targetIsChild st (NavigateToNode (Some r)) =
     (\<not> hasChildren (heap st r) \<or>
      (case currentNode st of
         Some cur \<Rightarrow> r \<in> set (children (heap st cur))
       | None \<Rightarrow> False))"
| "targetIsChild st opn = True"

fun childTargets :: "state \<Rightarrow> nav_op list \<Rightarrow> bool" where
  "childTargets st [] = True"
| "childTargets st (opn # ops) = (targetIsChild st opn \<and> childTargets (navStep st opn) ops)"

text \<open>
  The connection map as the connection system's own operations build it: one bucket per
  key, and every connection of a bucket has the bucket's key as its \<^verbatim>\<open>sourceId\<close>.
\<close>

definition storeWellFormed :: "(string \<times> connection list) list \<Rightarrow> bool" where
  "storeWellFormed m =
     (distinct (map fst m) \<and>
      list_all (\<lambda>(k, bucket). list_all (\<lambda>conn. sourceId conn = k) bucket) m)"

section \<open>Concrete states\<close>

text \<open>
  The scenario of the specification: a root \<open>A\<close> with the children \<open>B\<close> and \<open>C\<close>, built
  by \<^verbatim>\<open>initialize\<close> and two calls of \<^verbatim>\<open>addNode\<close>; then the connection from \<open>B\<close> to
  \<open>C\<close>, made by \<^verbatim>\<open>startConnection\<close> and \<^verbatim>\<open>finishConnection\<close>. The objects are at the
  references 0, 1 and 2 and have the ids \<open>n0\<close>, \<open>n1\<close> and \<open>n2\<close>.
\<close>

definition scenarioTree :: state where
  "scenarioTree =
     (let st1 = initialize ''n0'' 1 ''A'' initialState;
          st2 = (case addNode ''n1'' 2 st1 ''B'' ''process'' (-200) (-100) of
                   Some (r, s) \<Rightarrow> s | None \<Rightarrow> st1)
      in case addNode ''n2'' 3 st2 ''C'' ''logic'' 200 (-100) of
           Some (r, s) \<Rightarrow> s | None \<Rightarrow> st2)"

definition scenarioConnected :: state where
  "scenarioConnected =
     snd (finishConnection ''c1'' 4 (startConnection scenarioTree (Some 1)) (Some 2))"

text \<open>A freshly initialised system and, beside its tree, a node \<open>X\<close> (reference 1) with
  one child \<open>Y\<close> (reference 2).\<close>

definition scenarioStray :: state where
  "scenarioStray =
     (let st1 = initialize ''n0'' 1 ''My Application'' initialState;
          (x, st2) = newNode ''n1'' 2 ''X'' ''process'' 0 0 st1;
          (y, st3) = newNode ''n2'' 3 ''Y'' ''process'' 0 0 st2
      in addChild 4 st3 x y)"

text \<open>The tree of the scenario with a grandchild \<open>D\<close> (reference 3) under \<open>B\<close>.\<close>

definition scenarioDeep :: state where
  "scenarioDeep =
     (let (d, st1) = newNode ''n3'' 5 ''D'' ''code'' 0 0 scenarioTree
      in addChild 6 st1 1 d)"

text \<open>
  The document \<^verbatim>\<open>toJSON\<close> gives for the tree of the scenario once \<open>B\<close> and \<open>C\<close> are
  connected, and the same root record with \<^verbatim>\<open>children: null\<close>.
\<close>

definition freshMetadata :: "rat \<Rightarrow> rat \<Rightarrow> jsval" where
  "freshMetadata created modified =
     JObj [(''description'', JStr []), (''code'', JStr []),
           (''createdAt'', JNum created), (''modifiedAt'', JNum modified)]"


definition nullChildrenDocument :: node_json where
  "nullChildrenDocument =
     NodeJSON (JStr ''n0'') (JStr ''A'') (JStr ''domain'') (JNum 0) (JNum 0)
       (ChildOther NNull) (JArr []) (freshMetadata 1 3)"


section \<open>Viewport theorems\<close>

text \<open>
  Claim C2. For a fixed viewport with non-zero zoom, mapping a world point to the screen
  and back gives the point again, exactly over the rationals.
\<close>

theorem screenToWorld_worldToScreen:
  assumes "zoom vp \<noteq> 0"
  shows "screenToWorld vp (fst (worldToScreen vp wx wy)) (snd (worldToScreen vp wx wy)) = (wx, wy)"
  using assms by (simp add: screenToWorld_def worldToScreen_def)

theorem screenToWorld_worldToScreen_witness:
  "zoom (initialViewport 800 600) \<noteq> 0 \<and>
   screenToWorld (initialViewport 800 600)
     (fst (worldToScreen (initialViewport 800 600) 7 (-3)))
     (snd (worldToScreen (initialViewport 800 600) 7 (-3))) = (7, -3)"
proof -
  have z: "zoom (initialViewport 800 600) \<noteq> 0"
    by (simp add: initialViewport_def)
  show ?thesis
    using z screenToWorld_worldToScreen [OF z, of 7 "-3"] by simp
qed

text \<open>
  Claim C4, as amended. One wheel notch multiplies the zoom by 1.1 (wheel delta not
  positive) or by 0.9 (wheel delta positive) when the product lies in
  \<open>[minZoom, maxZoom]\<close>; otherwise the notch is ignored and the whole viewport stays as it
  was. The bounds themselves never change, so a zoom inside the bounds stays inside.
\<close>

theorem onWheel_zoom_step:
  "(if minZoom vp \<le> zoom vp * zoomDelta deltaY \<and> zoom vp * zoomDelta deltaY \<le> maxZoom vp
    then zoom (onWheel vp mx my deltaY) = zoom vp * zoomDelta deltaY
    else onWheel vp mx my deltaY = vp) \<and>
   zoomDelta deltaY = (if deltaY > 0 then 9 / 10 else 11 / 10) \<and>
   minZoom (onWheel vp mx my deltaY) = minZoom vp \<and>
   maxZoom (onWheel vp mx my deltaY) = maxZoom vp \<and>
   (minZoom vp \<le> zoom vp \<and> zoom vp \<le> maxZoom vp \<longrightarrow>
      minZoom vp \<le> zoom (onWheel vp mx my deltaY) \<and>
      zoom (onWheel vp mx my deltaY) \<le> maxZoom vp)"
  by (simp add: onWheel_def Let_def zoomDelta_def)

theorem onWheel_zoom_step_witness:
  "zoom (onWheel (initialViewport 800 600) 400 300 (-1)) = 11 / 10 \<and>
   zoom (onWheel (initialViewport 800 600) 400 300 1) = 9 / 10 \<and>
   onWheel ((initialViewport 800 600)\<lparr>zoom := 29 / 10\<rparr>) 400 300 (-1) =
     (initialViewport 800 600)\<lparr>zoom := 29 / 10\<rparr>"
  using onWheel_zoom_step [of "initialViewport 800 600" "-1" 400 300]
    onWheel_zoom_step [of "initialViewport 800 600" 1 400 300]
    onWheel_zoom_step [of "(initialViewport 800 600)\<lparr>zoom := 29 / 10\<rparr>" "-1" 400 300]
  by (simp add: initialViewport_def zoomDelta_def)

text \<open>
  The claim as stated fails on both counts. From zoom 1 a zoom-out notch gives 0.9, not
  \<open>1 / 1.1\<close>; from zoom 2.9 a zoom-in notch (2.9 * 1.1 = 3.19 > 3) leaves the zoom at
  2.9 and not at the bound 3.
\<close>

theorem onWheel_zoom_counterexample:
  "zoom (onWheel (initialViewport 800 600) 400 300 1)
     \<noteq> zoom (initialViewport 800 600) * (1 / (11 / 10)) \<and>
   zoom (onWheel ((initialViewport 800 600)\<lparr>zoom := 29 / 10\<rparr>) 400 300 (-1))
     \<noteq> maxZoom ((initialViewport 800 600)\<lparr>zoom := 29 / 10\<rparr>)"
  by (simp add: onWheel_def Let_def zoomDelta_def initialViewport_def screenToWorld_def)

text \<open>
  Claim C5. An accepted wheel step multiplies the zoom by the step factor and moves the pan
  offset to \<open>cursor - (cursor - pan) * factor\<close>, and with the new zoom and pan the world
  point that was under the cursor before the step is drawn at the cursor position again.
  The lower zoom bound is positive (the constructor sets 0.1), so an accepted step starts
  from and arrives at a non-zero zoom.
\<close>

theorem onWheel_anchored_at_cursor:
  assumes "0 < minZoom vp"
    and "minZoom vp \<le> zoom vp * zoomDelta deltaY"
    and "zoom vp * zoomDelta deltaY \<le> maxZoom vp"
  shows "zoom (onWheel vp mx my deltaY) = zoom vp * zoomDelta deltaY \<and>
         panX (onWheel vp mx my deltaY) = mx - (mx - panX vp) * zoomDelta deltaY \<and>
         panY (onWheel vp mx my deltaY) = my - (my - panY vp) * zoomDelta deltaY \<and>
         worldToScreen (onWheel vp mx my deltaY)
           (fst (screenToWorld vp mx my)) (snd (screenToWorld vp mx my)) = (mx, my)"
proof -
  have d: "0 < zoomDelta deltaY"
    by (simp add: zoomDelta_def)
  have "0 < zoom vp * zoomDelta deltaY"
    using assms(1,2) by simp
  with d have z: "0 < zoom vp"
    by (simp add: zero_less_mult_iff)
  then have nz: "zoom vp \<noteq> 0" "zoomDelta deltaY \<noteq> 0"
    using d by simp_all
  have zm: "zoom (onWheel vp mx my deltaY) = zoom vp * zoomDelta deltaY"
    using assms(2,3) by (simp add: onWheel_def Let_def)
  have px: "panX (onWheel vp mx my deltaY) = mx - (mx - panX vp) * zoomDelta deltaY"
    using assms(2,3) nz
    by (simp add: onWheel_def Let_def screenToWorld_def) (simp add: field_simps)
  have py: "panY (onWheel vp mx my deltaY) = my - (my - panY vp) * zoomDelta deltaY"
    using assms(2,3) nz
    by (simp add: onWheel_def Let_def screenToWorld_def) (simp add: field_simps)
  have ws: "worldToScreen (onWheel vp mx my deltaY)
           (fst (screenToWorld vp mx my)) (snd (screenToWorld vp mx my)) = (mx, my)"
    using nz by (simp add: worldToScreen_def zm px py screenToWorld_def)
  show ?thesis
    using zm px py ws by simp
qed

theorem onWheel_anchored_at_cursor_witness:
  "0 < minZoom (initialViewport 800 600) \<and>
   minZoom (initialViewport 800 600) \<le> zoom (initialViewport 800 600) * zoomDelta (-1) \<and>
   zoom (initialViewport 800 600) * zoomDelta (-1) \<le> maxZoom (initialViewport 800 600) \<and>
   zoom (initialViewport 800 600) = 1 \<and>
   panX (initialViewport 800 600) = 400 \<and>
   panY (initialViewport 800 600) = 300 \<and>
   zoom (onWheel (initialViewport 800 600) 100 50 (-1)) = 11 / 10 \<and>
   panX (onWheel (initialViewport 800 600) 100 50 (-1)) = 430 \<and>
   panY (onWheel (initialViewport 800 600) 100 50 (-1)) = 325 \<and>
   worldToScreen (onWheel (initialViewport 800 600) 100 50 (-1))
     (fst (screenToWorld (initialViewport 800 600) 100 50))
     (snd (screenToWorld (initialViewport 800 600) 100 50)) = (100, 50)"
proof -
  have h1: "0 < minZoom (initialViewport 800 600)"
    by (simp add: initialViewport_def)
  have h2: "minZoom (initialViewport 800 600) \<le> zoom (initialViewport 800 600) * zoomDelta (-1)"
    by (simp add: initialViewport_def zoomDelta_def)
  have h3: "zoom (initialViewport 800 600) * zoomDelta (-1) \<le> maxZoom (initialViewport 800 600)"
    by (simp add: initialViewport_def zoomDelta_def)
  show ?thesis
    using h1 h2 h3 onWheel_anchored_at_cursor [OF h1 h2 h3, of 100 50]
    by (simp add: initialViewport_def zoomDelta_def)
qed

section \<open>Serialisation theorems\<close>







text \<open>With \<^verbatim>\<open>children: null\<close> the record comes back with the empty array.\<close>

lemma nullChildren_roundtrip:
  "map_option Node_toJSON (Node_fromJSON ''g'' 9 nullChildrenDocument) =
     Some (NodeJSON (JStr ''n0'') (JStr ''A'') (JStr ''domain'') (JNum 0) (JNum 0)
             (ChildArray []) (JArr []) (freshMetadata 1 3))"
  by (simp add: nullChildrenDocument_def freshMetadata_def newNodeTree_def js_or_def
        js_default_def Let_def)


section \<open>Import theorems\<close>

lemma getProp_truthy: "truthy v \<Longrightarrow> \<exists>w. getProp v k = Some w"
  by (cases v) (auto split: option.splits)

text \<open>
  Claim C9. \<^verbatim>\<open>importFromFile\<close> never throws. It hands the document to the callback
  exactly when the document meets the minimum contract; for every other document the
  callback is not called and the state is the old state with one more notification, so
  the tree and the connection graph are as they were.
\<close>

theorem import_acceptance:
  "importFromFile callback data st =
     Some (if minimumContract data then callback data st
           else st\<lparr>notifications :=
                     notifications st @ [(''Invalid file format'', ''error'')]\<rparr>)"
proof (cases "truthy data")
  case False
  then show ?thesis
    by (simp add: importFromFile_def validateImportData_def js_and_def minimumContract_def
          showNotification_def)
next
  case True
  then obtain ver where v: "getProp data ''version'' = Some ver"
    using getProp_truthy by blast
  from True obtain rn where r: "getProp data ''rootNode'' = Some rn"
    using getProp_truthy by blast
  show ?thesis
  proof (cases "truthy rn")
    case False
    with True v r show ?thesis
      by (simp add: importFromFile_def validateImportData_def js_and_def minimumContract_def
            showNotification_def truthyProp_def)
  next
    case tr: True
    then obtain i n where "getProp rn ''id'' = Some i" "getProp rn ''name'' = Some n"
      using getProp_truthy by blast
    with True v r tr show ?thesis
      by (simp add: importFromFile_def validateImportData_def js_and_def minimumContract_def
            showNotification_def truthyProp_def)
  qed
qed

theorem import_acceptance_witness:
  "importFromFile (\<lambda>d s. initialState)
     (JObj [(''version'', JStr ''1.0''), (''rootNode'', JObj [(''name'', JStr ''A'')])])
     scenarioConnected =
     Some (scenarioConnected\<lparr>notifications :=
             notifications scenarioConnected @ [(''Invalid file format'', ''error'')]\<rparr>) \<and>
   importFromFile (\<lambda>d s. initialState)
     (JObj [(''version'', JStr ''1.0''),
            (''rootNode'', JObj [(''id'', JStr ''n0''), (''name'', JStr ''A'')])])
     scenarioConnected = Some initialState"
  using import_acceptance [of "\<lambda>d s. initialState"
      "JObj [(''version'', JStr ''1.0''), (''rootNode'', JObj [(''name'', JStr ''A'')])]"
      scenarioConnected]
    import_acceptance [of "\<lambda>d s. initialState"
      "JObj [(''version'', JStr ''1.0''),
             (''rootNode'', JObj [(''id'', JStr ''n0''), (''name'', JStr ''A'')])]"
      scenarioConnected]
  by (simp add: minimumContract_def truthyProp_def)

section \<open>Concrete states, evaluated\<close>

lemma scenarioTree_facts:
  "currentNode scenarioTree = Some 0"
  "navigationStack scenarioTree = [0]"
  "children (heap scenarioTree 0) = [Suc 0, 2]"
  "children (heap scenarioTree (Suc 0)) = []"
  "children (heap scenarioTree 2) = []"
  "node_id (heap scenarioTree 0) = ''n0''"
  "node_id (heap scenarioTree (Suc 0)) = ''n1''"
  "node_id (heap scenarioTree 2) = ''n2''"
  "node_connections (heap scenarioTree (Suc 0)) = []"
  "node_connections (heap scenarioTree 2) = []"
  "connections scenarioTree = []"
  "isConnecting scenarioTree = False"
  "nextRef scenarioTree = 3"
  by (simp_all add: scenarioTree_def initialize_def addNode_def newNode_def addChild_def
        touch_def initialState_def Let_def)

lemma scenario_first_connection:
  "finishConnection ''c1'' 4 (startConnection scenarioTree (Some 1)) (Some 2) =
     (Some (newConnection ''c1'' 4 ''n1'' ''n2''), scenarioConnected)"
proof -
  have "fst (finishConnection ''c1'' 4 (startConnection scenarioTree (Some 1)) (Some 2)) =
      Some (newConnection ''c1'' 4 ''n1'' ''n2'')"
    by (simp add: finishConnection_def startConnection_def connectionExists_def
          scenarioTree_facts Let_def)
  then show ?thesis
    by (simp add: scenarioConnected_def prod_eq_iff)
qed

lemma scenarioConnected_facts:
  "currentNode scenarioConnected = Some 0"
  "navigationStack scenarioConnected = [0]"
  "children (heap scenarioConnected 0) = [Suc 0, 2]"
  "node_id (heap scenarioConnected 0) = ''n0''"
  "node_id (heap scenarioConnected (Suc 0)) = ''n1''"
  "node_id (heap scenarioConnected 2) = ''n2''"
  "node_connections (heap scenarioConnected (Suc 0)) = [''c1'']"
  "node_connections (heap scenarioConnected 2) = [''c1'']"
  "connections scenarioConnected = [(''n1'', [newConnection ''c1'' 4 ''n1'' ''n2''])]"
  "isConnecting scenarioConnected = False"
  "connectionStart scenarioConnected = None"
  by (simp_all add: scenarioConnected_def finishConnection_def startConnection_def
        connectionExists_def storeConnection_def pushConnectionId_def cancelConnection_def
        newConnection_def scenarioTree_facts Let_def)

lemma scenarioDeep_facts:
  "currentNode scenarioDeep = Some 0"
  "navigationStack scenarioDeep = [0]"
  "children (heap scenarioDeep 0) = [Suc 0, 2]"
  "children (heap scenarioDeep (Suc 0)) = [3]"
  "children (heap scenarioDeep 2) = []"
  by (simp_all add: scenarioDeep_def newNode_def addChild_def touch_def scenarioTree_facts
        Let_def)

lemma scenarioStray_facts:
  "currentNode scenarioStray = Some 0"
  "navigationStack scenarioStray = [0]"
  "children (heap scenarioStray 0) = []"
  "children (heap scenarioStray (Suc 0)) = [2]"
  by (simp_all add: scenarioStray_def initialize_def newNode_def addChild_def touch_def
        initialState_def Let_def)

section \<open>Connection system theorems\<close>

lemma map_of_storeConnection:
  "map_of (storeConnection k c m) k' =
     (if k' = k then Some ((case map_of m k of Some b \<Rightarrow> b | None \<Rightarrow> []) @ [c]) else map_of m k')"
  by (auto simp: storeConnection_def Let_def AList.update_conv' split: option.splits)

lemma set_update_subset: "set (AList.update k v al) \<subseteq> insert (k, v) (set al)"
  by (induction al) auto

lemma storeWellFormed_storeConnection:
  assumes "storeWellFormed m" and "sourceId c = k"
  shows "storeWellFormed (storeConnection k c m)"
proof -
  have keyed: "\<And>k' b. (k', b) \<in> set m \<Longrightarrow> \<forall>x\<in>set b. sourceId x = k'"
    using assms(1) by (auto simp: storeWellFormed_def list_all_iff)
  have d: "distinct (map fst (storeConnection k c m))"
    using assms(1)
    by (auto simp: storeConnection_def Let_def storeWellFormed_def AList.distinct_update split: option.splits)
  have "\<And>k' b. (k', b) \<in> set (storeConnection k c m) \<Longrightarrow> \<forall>x\<in>set b. sourceId x = k'"
  proof -
    fix k' b assume a: "(k', b) \<in> set (storeConnection k c m)"
    show "\<forall>x\<in>set b. sourceId x = k'"
    proof (cases "map_of m k")
      case None
      then have "storeConnection k c m = AList.update k [c] (AList.update k [] m)"
        by (simp add: storeConnection_def Let_def AList.update_conv')
      then have "(k', b) \<in> insert (k, [c]) (set m)"
        using a set_update_subset[of k "[c]" m] by auto
      then show ?thesis using keyed assms(2) by auto
    next
      case (Some bk)
      then have "storeConnection k c m = AList.update k (bk @ [c]) m"
        by (simp add: storeConnection_def Let_def)
      then have "(k', b) \<in> insert (k, bk @ [c]) (set m)"
        using a set_update_subset[of k "bk @ [c]" m] by auto
      moreover have "\<forall>x\<in>set bk. sourceId x = k"
        using keyed map_of_SomeD[OF Some] by blast
      ultimately show ?thesis using keyed assms(2) by auto
    qed
  qed
  then show ?thesis using d
    by (auto simp: storeWellFormed_def list_all_iff)
qed

lemma filter_allConnections:
  assumes "storeWellFormed m"
  shows "filter (\<lambda>x. sourceId x = k \<and> Q x) (concat (map snd m)) =
         filter Q (case map_of m k of Some b \<Rightarrow> b | None \<Rightarrow> [])"
  using assms
proof (induction m)
  case Nil
  then show ?case by simp
next
  case (Cons p m)
  obtain k' b where p: "p = (k', b)" by (cases p)
  from Cons.prems have wf: "storeWellFormed m" and nk: "k' \<notin> fst ` set m"
    and kb: "\<forall>x\<in>set b. sourceId x = k'"
    by (auto simp: storeWellFormed_def p list_all_iff)
  show ?case
  proof (cases "k' = k")
    case True
    then have "map_of m k = None" using nk by (simp add: map_of_eq_None_iff)
    moreover have "filter (\<lambda>x. sourceId x = k \<and> Q x) b = filter Q b"
      using kb True by (auto intro: filter_cong)
    ultimately show ?thesis using Cons.IH[OF wf] True by (simp add: p)
  next
    case False
    then have "filter (\<lambda>x. sourceId x = k \<and> Q x) b = []"
      using kb by (auto simp: filter_empty_conv)
    then show ?thesis using Cons.IH[OF wf] False by (simp add: p)
  qed
qed

lemma finishConnection_created:
  assumes "finishConnection gid now (startConnection st (Some s)) (Some t) = (Some c, st1)"
  shows "node_id (heap st s) \<noteq> node_id (heap st t)"
    and "\<not> connectionExists st (node_id (heap st s)) (node_id (heap st t))"
    and "c = newConnection gid now (node_id (heap st s)) (node_id (heap st t))"
    and "connections st1 = storeConnection (node_id (heap st s)) c (connections st)"
    and "node_id (heap st1 r) = node_id (heap st r)"
  using assms
  by (auto simp: finishConnection_def startConnection_def cancelConnection_def Let_def
        connectionExists_def pushConnectionId_def split: if_splits)

text \<open>The constructor's empty map is well formed and \<^verbatim>\<open>finishConnection\<close> keeps a map
  well formed, whatever it returns.\<close>

lemma initialState_wellFormed: "storeWellFormed (connections initialState)"
  by (simp add: initialState_def storeWellFormed_def)

lemma finishConnection_wellFormed:
  assumes "storeWellFormed (connections st)"
  shows "storeWellFormed (connections (snd (finishConnection gid now st targetNode)))"
  using assms
  by (auto simp: finishConnection_def cancelConnection_def showNotification_def Let_def
        newConnection_def
        intro!: storeWellFormed_storeConnection split: bool.splits option.splits)

text \<open>
  Claim C7. For a node \<open>n\<close> and any state, \<^verbatim>\<open>startConnection(n)\<close> followed by
  \<^verbatim>\<open>finishConnection(n)\<close> returns \<^verbatim>\<open>null\<close>; the connection map, the object store (and
  with it the connection-id list of \<open>n\<close>) and the notification log are as before, and the
  system is idle: not connecting, no pending source, no preview endpoint.
\<close>

theorem finishConnection_self_rejected:
  "fst (finishConnection gid now (startConnection st (Some n)) (Some n)) = None \<and>
   connections (snd (finishConnection gid now (startConnection st (Some n)) (Some n)))
     = connections st \<and>
   heap (snd (finishConnection gid now (startConnection st (Some n)) (Some n))) = heap st \<and>
   notifications (snd (finishConnection gid now (startConnection st (Some n)) (Some n)))
     = notifications st \<and>
   isConnecting (snd (finishConnection gid now (startConnection st (Some n)) (Some n)))
     = False \<and>
   connectionStart (snd (finishConnection gid now (startConnection st (Some n)) (Some n)))
     = None \<and>
   tempConnectionEnd (snd (finishConnection gid now (startConnection st (Some n)) (Some n)))
     = None"
  by (simp add: finishConnection_def startConnection_def cancelConnection_def)

theorem finishConnection_self_rejected_witness:
  "fst (finishConnection ''c2'' 5 (startConnection scenarioConnected (Some 1)) (Some 1)) = None \<and>
   connections (snd (finishConnection ''c2'' 5 (startConnection scenarioConnected (Some 1)) (Some 1)))
     = [(''n1'', [newConnection ''c1'' 4 ''n1'' ''n2''])] \<and>
   node_connections
     (heap (snd (finishConnection ''c2'' 5 (startConnection scenarioConnected (Some 1)) (Some 1))) 1)
     = [''c1''] \<and>
   isConnecting (snd (finishConnection ''c2'' 5 (startConnection scenarioConnected (Some 1)) (Some 1)))
     = False"
  using finishConnection_self_rejected [of "''c2''" 5 scenarioConnected 1]
  by (simp add: scenarioConnected_facts)

text \<open>
  Claim C6. Once \<^verbatim>\<open>startConnection(s)\<close>, \<^verbatim>\<open>finishConnection(t)\<close> has created a
  connection \<open>c\<close>, a second such sequence returns \<^verbatim>\<open>null\<close> and leaves the connection map
  as it is; the bucket of \<open>s\<close> holds exactly one connection to \<open>t\<close>, namely \<open>c\<close>, and when
  the map was well formed before (one bucket per key, each bucket keyed by the source of
  its connections) the whole store holds exactly one connection from \<open>s\<close> to \<open>t\<close>.
\<close>

theorem finishConnection_duplicate_rejected:
  assumes "finishConnection gid now (startConnection st (Some s)) (Some t) = (Some c, st1)"
  shows "fst (finishConnection gid' now' (startConnection st1 (Some s)) (Some t)) = None \<and>
         connections (snd (finishConnection gid' now' (startConnection st1 (Some s)) (Some t))) = connections st1 \<and>
         filter (\<lambda>x. targetId x = node_id (heap st t)) (getNodeConnections st1 (node_id (heap st s))) = [c] \<and>
         (storeWellFormed (connections st) \<longrightarrow>
            filter (\<lambda>x. sourceId x = node_id (heap st s) \<and> targetId x = node_id (heap st t))
               (allConnections (snd (finishConnection gid' now' (startConnection st1 (Some s)) (Some t)))) = [c])"
proof -
  note f = finishConnection_created[OF assms]
  let ?sid = "node_id (heap st s)" and ?tid = "node_id (heap st t)"
  have ct: "targetId c = ?tid" and cs: "sourceId c = ?sid"
    using f(3) by (simp_all add: newConnection_def)
  have bucket: "map_of (connections st1) ?sid =
      Some ((case map_of (connections st) ?sid of Some b \<Rightarrow> b | None \<Rightarrow> []) @ [c])"
    using f(4) by (simp add: map_of_storeConnection)
  have old: "filter (\<lambda>x. targetId x = ?tid) (case map_of (connections st) ?sid of Some b \<Rightarrow> b | None \<Rightarrow> []) = []"
    using f(2) by (auto simp: connectionExists_def list_ex_iff filter_empty_conv split: option.splits)
  have ex: "connectionExists st1 ?sid ?tid"
    using bucket ct by (simp add: connectionExists_def)
  have second: "finishConnection gid' now' (startConnection st1 (Some s)) (Some t) =
     (None, cancelConnection (showNotification ''Connection already exists'' ''error'' (startConnection st1 (Some s))))"
    using ex f(1) f(5)
    by (simp add: finishConnection_def startConnection_def connectionExists_def)
  have conn2: "connections (snd (finishConnection gid' now' (startConnection st1 (Some s)) (Some t))) = connections st1"
    unfolding second by (simp add: cancelConnection_def showNotification_def startConnection_def)
  have one: "filter (\<lambda>x. targetId x = ?tid) (getNodeConnections st1 ?sid) = [c]"
    using bucket old ct by (simp add: getNodeConnections_def)
  have all: "storeWellFormed (connections st) \<Longrightarrow>
     filter (\<lambda>x. sourceId x = ?sid \<and> targetId x = ?tid) (concat (map snd (connections st1))) = [c]"
  proof -
    assume wf: "storeWellFormed (connections st)"
    have "storeWellFormed (connections st1)"
      using storeWellFormed_storeConnection[OF wf cs] f(4) by simp
    from filter_allConnections[OF this, of ?sid "\<lambda>x. targetId x = ?tid"]
    show ?thesis using one by (simp add: getNodeConnections_def)
  qed
  have none: "fst (finishConnection gid' now' (startConnection st1 (Some s)) (Some t)) = None"
    unfolding second by simp
  show ?thesis
    using none conn2 one all by (simp add: allConnections_def)
qed


theorem finishConnection_duplicate_rejected_witness:
  "finishConnection ''c1'' 4 (startConnection scenarioTree (Some 1)) (Some 2) =
     (Some (newConnection ''c1'' 4 ''n1'' ''n2''), scenarioConnected) \<and>
   fst (finishConnection ''c2'' 5 (startConnection scenarioConnected (Some 1)) (Some 2)) = None \<and>
   connections (snd (finishConnection ''c2'' 5 (startConnection scenarioConnected (Some 1)) (Some 2)))
     = connections scenarioConnected \<and>
   storeWellFormed (connections scenarioTree) \<and>
   filter (\<lambda>x. sourceId x = ''n1'' \<and> targetId x = ''n2'')
     (allConnections (snd (finishConnection ''c2'' 5 (startConnection scenarioConnected (Some 1)) (Some 2))))
     = [newConnection ''c1'' 4 ''n1'' ''n2'']"
proof -
  have wf: "storeWellFormed (connections scenarioTree)"
    by (simp add: scenarioTree_facts storeWellFormed_def)
  show ?thesis
    using scenario_first_connection wf
      finishConnection_duplicate_rejected [OF scenario_first_connection, of "''c2''" 5]
    by (simp add: scenarioTree_facts)
qed









section \<open>Node system theorems\<close>

lemma findIndex_Some:
  "findIndex P xs = Some i \<Longrightarrow> i < length xs \<and> P (xs ! i)"
proof (induction xs arbitrary: i)
  case Nil
  then show ?case by simp
next
  case (Cons x xs)
  then show ?case by (cases i) (auto split: if_splits)
qed

lemma splice1_distinct_image:
  assumes "distinct (map f xs)" and "i < length xs"
  shows "f (xs ! i) \<notin> f ` set (splice1 i xs)"
proof -
  have "xs = take i xs @ xs ! i # drop (Suc i) xs"
    using assms(2) by (rule id_take_nth_drop)
  then have "distinct (map f (take i xs @ xs ! i # drop (Suc i) xs))"
    using assms(1) by simp
  then show ?thesis
    by (auto simp: splice1_def)
qed

lemma removeChild_True:
  assumes "removeChild now st parent nodeId = (True, st')"
  shows "\<exists>index. findIndex (\<lambda>n. node_id (heap st n) = nodeId) (children (heap st parent)) = Some index \<and>
           st' = st\<lparr>heap := (heap st)(parent := touch now
                    ((heap st parent)\<lparr>children := splice1 index (children (heap st parent))\<rparr>))\<rparr>"
  using assms by (auto simp: removeChild_def split: option.splits)

text \<open>
  Claim C3, as amended. Deleting a node from its parent's child list does not touch the
  connection graph. After \<^verbatim>\<open>deleteNode(n.id)\<close> has succeeded, the first child with that id
  is gone from the current node's children and the connection map is exactly as before, so
  every connection with that id as source or target is still stored. Such connections are
  hidden only: when the map is well formed and the children had distinct ids,
  \<^verbatim>\<open>getConnectionsForLevel\<close> of the current node returns none of them.
\<close>

theorem deleteNode_leaves_connections:
  assumes "deleteNode now st nodeId = (True, st')"
  shows "connections st' = connections st \<and> currentNode st' = currentNode st \<and>
    (\<exists>cur index. currentNode st = Some cur \<and>
       findIndex (\<lambda>n. node_id (heap st n) = nodeId) (children (heap st cur)) = Some index \<and>
       children (heap st' cur) = splice1 index (children (heap st cur)) \<and>
       (storeWellFormed (connections st) \<and>
        distinct (map (\<lambda>n. node_id (heap st n)) (children (heap st cur))) \<longrightarrow>
        list_all (\<lambda>c. sourceId c \<noteq> nodeId \<and> targetId c \<noteq> nodeId)
          (getConnectionsForLevel st' (currentNode st'))))"
proof -
  from assms obtain cur where cur: "currentNode st = Some cur"
    and rc: "removeChild now st cur nodeId = (True, st')"
    by (auto simp: deleteNode_def split: option.splits)
  from removeChild_True[OF rc] obtain index where
    fi: "findIndex (\<lambda>n. node_id (heap st n) = nodeId) (children (heap st cur)) = Some index"
    and st': "st' = st\<lparr>heap := (heap st)(cur := touch now
                    ((heap st cur)\<lparr>children := splice1 index (children (heap st cur))\<rparr>))\<rparr>"
    by blast
  let ?kids = "children (heap st cur)"
  have ids: "\<And>r. node_id (heap st' r) = node_id (heap st r)"
    by (simp add: st' touch_def)
  have kids': "children (heap st' cur) = splice1 index ?kids"
    by (simp add: st' touch_def)
  have conns: "connections st' = connections st" and cur': "currentNode st' = currentNode st"
    by (simp_all add: st')
  have hidden: "list_all (\<lambda>c. sourceId c \<noteq> nodeId \<and> targetId c \<noteq> nodeId)
          (getConnectionsForLevel st' (currentNode st'))"
    if wf: "storeWellFormed (connections st)"
      and dist: "distinct (map (\<lambda>n. node_id (heap st n)) ?kids)"
  proof -
    from findIndex_Some[OF fi] have il: "index < length ?kids"
      and idx: "node_id (heap st (?kids ! index)) = nodeId" by simp_all
    from splice1_distinct_image[OF dist il] idx
    have notin: "nodeId \<notin> (\<lambda>n. node_id (heap st n)) ` set (splice1 index ?kids)"
      by simp
    have keyed: "\<And>k c. c \<in> set (getNodeConnections st k) \<Longrightarrow> sourceId c = k"
      using wf
      by (auto simp: getNodeConnections_def storeWellFormed_def list_all_iff
            split: option.splits dest!: map_of_SomeD)
    have same: "\<And>k. getNodeConnections st' k = getNodeConnections st k"
      by (simp add: getNodeConnections_def conns)
    show ?thesis
      using notin keyed
      by (auto simp: getConnectionsForLevel_def cur' cur kids' ids same Let_def list_all_iff)
  qed
  show ?thesis
    using conns cur' cur fi kids' hidden by blast
qed

theorem deleteNode_leaves_connections_witness:
  "deleteNode 9 scenarioConnected ''n1'' = (True, snd (deleteNode 9 scenarioConnected ''n1'')) \<and>
   connections (snd (deleteNode 9 scenarioConnected ''n1'')) = [(''n1'', [newConnection ''c1'' 4 ''n1'' ''n2''])] \<and>
   children (heap (snd (deleteNode 9 scenarioConnected ''n1'')) 0) = [2] \<and>
   storeWellFormed (connections scenarioConnected) \<and>
   distinct (map (\<lambda>n. node_id (heap scenarioConnected n)) (children (heap scenarioConnected 0))) \<and>
   list_all (\<lambda>c. sourceId c \<noteq> ''n1'' \<and> targetId c \<noteq> ''n1'')
     (getConnectionsForLevel (snd (deleteNode 9 scenarioConnected ''n1''))
        (currentNode (snd (deleteNode 9 scenarioConnected ''n1''))))"
proof -
  have "fst (deleteNode 9 scenarioConnected ''n1'') = True"
    by (simp add: deleteNode_def removeChild_def scenarioConnected_facts)
  then have h: "deleteNode 9 scenarioConnected ''n1'' = (True, snd (deleteNode 9 scenarioConnected ''n1''))"
    by (simp add: prod_eq_iff)
  have wf: "storeWellFormed (connections scenarioConnected)"
    by (simp add: scenarioConnected_facts storeWellFormed_def newConnection_def)
  have d: "distinct (map (\<lambda>n. node_id (heap scenarioConnected n)) (children (heap scenarioConnected 0)))"
    by (simp add: scenarioConnected_facts)
  show ?thesis
    using h wf d deleteNode_leaves_connections [OF h]
    by (auto simp add: scenarioConnected_facts splice1_def)
qed

text \<open>
  The claim as stated fails. In the scenario (root \<open>A\<close>, children \<open>B\<close> and \<open>C\<close>, one
  connection from \<open>B\<close> to \<open>C\<close>), deleting \<open>B\<close> succeeds and the connection whose source is
  \<open>B\<close> is still stored.
\<close>

theorem deleteNode_cascade_counterexample:
  "fst (deleteNode 9 scenarioConnected ''n1'') = True \<and>
   list_ex (\<lambda>c. sourceId c = ''n1'' \<or> targetId c = ''n1'')
     (allConnections (snd (deleteNode 9 scenarioConnected ''n1'')))"
  by (simp add: deleteNode_def removeChild_def scenarioConnected_facts allConnections_def
        newConnection_def)


lemma stackChain_snoc:
  "stack \<noteq> [] \<Longrightarrow>
   stackChain h (stack @ [r]) = (stackChain h stack \<and> r \<in> set (children (h (last stack))))"
  by (induction h stack rule: stackChain.induct) auto

lemma stackChain_take: "stackChain h stack \<Longrightarrow> stackChain h (take n stack)"
proof (induction h stack arbitrary: n rule: stackChain.induct)
  case (1 h p c rest)
  show ?case
  proof (cases n)
    case 0
    then show ?thesis by simp
  next
    case (Suc m)
    show ?thesis
    proof (cases m)
      case 0
      with Suc show ?thesis by simp
    next
      case (Suc k)
      with \<open>n = Suc m\<close> 1 show ?thesis
        using "1.IH"[of m] by simp
    qed
  qed
next
  case (2 h p)
  then show ?case by (cases n) simp_all
next
  case (3 h)
  then show ?case by simp
qed

lemma navStep_heap: "heap (navStep st opn) = heap st"
  by (cases opn)
     (auto simp: navigateToNode_def navigateBack_def navigateToStackIndex_def Let_def
        split: option.splits)

lemma navStep_top: "navTopOk st \<Longrightarrow> navTopOk (navStep st opn)"
proof (cases opn)
  case (NavigateToNode node)
  assume "navTopOk st"
  then show ?thesis
    by (auto simp: NavigateToNode navigateToNode_def navTopOk_def split: option.splits)
next
  case NavigateBack
  assume a: "navTopOk st"
  have "length (navigationStack st) > 1 \<Longrightarrow> butlast (navigationStack st) \<noteq> []"
    by (cases "navigationStack st") auto
  with a show ?thesis
    by (auto simp: NavigateBack navigateBack_def navTopOk_def Let_def)
next
  case (NavigateToStackIndex index)
  assume a: "navTopOk st"
  then show ?thesis
    by (auto simp: NavigateToStackIndex navigateToStackIndex_def navTopOk_def Let_def)
qed

lemma navStep_chain:
  assumes "navTopOk st" and "stackChain (heap st) (navigationStack st)" and "targetIsChild st opn"
  shows "stackChain (heap (navStep st opn)) (navigationStack (navStep st opn))"
proof (cases opn)
  case (NavigateToNode node)
  then show ?thesis
    using assms
    by (auto simp: navigateToNode_def navTopOk_def stackChain_snoc split: option.splits)
next
  case NavigateBack
  then show ?thesis
    using assms(2) stackChain_take[of "heap st" "navigationStack st" "length (navigationStack st) - 1"]
    by (auto simp: navigateBack_def Let_def butlast_conv_take)
next
  case (NavigateToStackIndex index)
  then show ?thesis
    using assms(2) stackChain_take[of "heap st" "navigationStack st"]
    by (auto simp: navigateToStackIndex_def Let_def)
qed

text \<open>\<^verbatim>\<open>initialize\<close> leaves a state that satisfies the navigation invariant.\<close>

lemma initialize_invariant:
  "navTopOk (initialize gid now name st) \<and>
   stackChain (heap (initialize gid now name st)) (navigationStack (initialize gid now name st))"
  by (simp add: initialize_def newNode_def navTopOk_def Let_def)

text \<open>
  Claim C8, as amended. After any sequence of \<^verbatim>\<open>navigateToNode\<close>, \<^verbatim>\<open>navigateBack\<close> and
  \<^verbatim>\<open>navigateToStackIndex\<close> from a state in which the stack is not empty and its top is
  the current node (as \<^verbatim>\<open>initialize\<close> leaves it), the stack is not empty and its top is
  the current node. If moreover every accepted \<^verbatim>\<open>navigateToNode\<close> targets a direct child
  of the node current at that moment, every entry of the stack is a child of the entry
  below it.
\<close>

theorem navigation_invariant:
  "(navTopOk st \<longrightarrow> navTopOk (navRun st ops)) \<and>
   (navTopOk st \<and> stackChain (heap st) (navigationStack st) \<and> childTargets st ops \<longrightarrow>
      stackChain (heap (navRun st ops)) (navigationStack (navRun st ops)))"
proof (induction ops arbitrary: st)
  case Nil
  then show ?case by simp
next
  case (Cons opn ops)
  show ?case
    using Cons.IH[of "navStep st opn"] navStep_top[of st opn] navStep_chain[of st opn]
    by auto
qed



theorem navigation_invariant_witness:
  "navTopOk scenarioDeep \<and>
   stackChain (heap scenarioDeep) (navigationStack scenarioDeep) \<and>
   childTargets scenarioDeep
     [NavigateToNode (Some 1), NavigateToStackIndex 0, NavigateToNode (Some 2),
      NavigateBack, NavigateToNode (Some 1)] \<and>
   navigationStack (navRun scenarioDeep
     [NavigateToNode (Some 1), NavigateToStackIndex 0, NavigateToNode (Some 2),
      NavigateBack, NavigateToNode (Some 1)]) = [0, 1] \<and>
   navTopOk (navRun scenarioDeep
     [NavigateToNode (Some 1), NavigateToStackIndex 0, NavigateToNode (Some 2),
      NavigateBack, NavigateToNode (Some 1)]) \<and>
   stackChain
     (heap (navRun scenarioDeep
        [NavigateToNode (Some 1), NavigateToStackIndex 0, NavigateToNode (Some 2),
         NavigateBack, NavigateToNode (Some 1)]))
     (navigationStack (navRun scenarioDeep
        [NavigateToNode (Some 1), NavigateToStackIndex 0, NavigateToNode (Some 2),
         NavigateBack, NavigateToNode (Some 1)]))"
proof -
  have h1: "navTopOk scenarioDeep"
    by (simp add: navTopOk_def scenarioDeep_facts)
  have h2: "stackChain (heap scenarioDeep) (navigationStack scenarioDeep)"
    by (simp add: scenarioDeep_facts)
  have h3: "childTargets scenarioDeep
     [NavigateToNode (Some 1), NavigateToStackIndex 0, NavigateToNode (Some 2),
      NavigateBack, NavigateToNode (Some 1)]"
    by (simp add: navigateToNode_def navigateToStackIndex_def navigateBack_def hasChildren_def
          scenarioDeep_facts Let_def)
  have h4: "navigationStack (navRun scenarioDeep
     [NavigateToNode (Some 1), NavigateToStackIndex 0, NavigateToNode (Some 2),
      NavigateBack, NavigateToNode (Some 1)]) = [0, 1]"
    by (simp add: navigateToNode_def navigateToStackIndex_def navigateBack_def hasChildren_def
          scenarioDeep_facts Let_def)
  show ?thesis
    using h1 h2 h3 h4
      navigation_invariant [of scenarioDeep
        "[NavigateToNode (Some 1), NavigateToStackIndex 0, NavigateToNode (Some 2),
          NavigateBack, NavigateToNode (Some 1)]"]
    by simp
qed

text \<open>
  The claim as stated fails: \<^verbatim>\<open>navigateToNode\<close> accepts any node that has children. In a
  freshly initialised system, navigating to a node \<open>X\<close> that has a child but is not in
  the tree succeeds and leaves the stack \<open>[root, X]\<close>, although \<open>X\<close> is not among the
  children of the root.
\<close>

theorem navigation_chain_counterexample:
  "navTopOk scenarioStray \<and>
   stackChain (heap scenarioStray) (navigationStack scenarioStray) \<and>
   fst (navigateToNode scenarioStray (Some 1)) = True \<and>
   navigationStack (navRun scenarioStray [NavigateToNode (Some 1)]) = [0, 1] \<and>
   \<not> stackChain (heap (navRun scenarioStray [NavigateToNode (Some 1)]))
         (navigationStack (navRun scenarioStray [NavigateToNode (Some 1)]))"
  by (simp add: navTopOk_def navigateToNode_def hasChildren_def scenarioStray_facts)

end
